theory Spec2Isabelle
  imports Main "HOL-Library.Word"
begin

section \<open>JavaScript strings\<close>

text \<open>
  A JavaScript string is a sequence of UTF-16 code units; \<open>.length\<close> counts code units,
  and a regular expression without the \<open>u\<close> flag matches code unit by code unit.
  String literals of the source are written as Isabelle strings and turned into code
  units by \<open>lit\<close> (the literals of this program are ASCII).
\<close>

type_synonym code_unit = "16 word"
type_synonym jsstring = "code_unit list"

definition lit :: "string \<Rightarrow> jsstring" where
  "lit s = map (\<lambda>c. of_nat (of_char c)) s"

text \<open>
  The code units that \<open>\s\<close> matches and that \<open>String.prototype.trim\<close> strips
  (ECMAScript WhiteSpace and LineTerminator): TAB, LF, VT, FF, CR, SPACE, NBSP,
  U+1680, U+2000 to U+200A, U+2028, U+2029, U+202F, U+205F, U+3000 and U+FEFF.
\<close>

definition white_space :: "code_unit list" where
  "white_space =
     [0x0009, 0x000A, 0x000B, 0x000C, 0x000D, 0x0020, 0x00A0, 0x1680,
      0x2000, 0x2001, 0x2002, 0x2003, 0x2004, 0x2005, 0x2006, 0x2007,
      0x2008, 0x2009, 0x200A, 0x2028, 0x2029, 0x202F, 0x205F, 0x3000, 0xFEFF]"

definition is_space :: "code_unit \<Rightarrow> bool" where
  "is_space c = (c \<in> set white_space)"

definition trim :: "jsstring \<Rightarrow> jsstring" where
  "trim s = rev (dropWhile is_space (rev (dropWhile is_space s)))"

abbreviation at_sign :: code_unit where
  "at_sign \<equiv> 0x40"

abbreviation full_stop :: code_unit where
  "full_stop \<equiv> 0x2E"

text \<open>
  A property read from a parsed JSON body, or an environment variable, may be absent
  (\<open>undefined\<close>): \<open>None\<close>. Truthiness of such a value, as \<open>!v\<close>, \<open>v ? a : b\<close> and
  \<open>v || d\<close> test it: \<open>undefined\<close> and the empty string are falsy, every other string
  is truthy. No trimming is involved.
\<close>

fun truthy :: "jsstring option \<Rightarrow> bool" where
  "truthy None = False"
| "truthy (Some s) = (s \<noteq> [])"

text \<open>String conversion, as a template literal or \<open>RegExp.prototype.test\<close> applies it.\<close>

fun to_string :: "jsstring option \<Rightarrow> jsstring" where
  "to_string None = lit ''undefined''"
| "to_string (Some s) = s"

text \<open>\<open>v || d\<close> on strings.\<close>

definition or_else :: "jsstring option \<Rightarrow> jsstring \<Rightarrow> jsstring" where
  "or_else v d = (if truthy v then to_string v else d)"

section \<open>Regular expressions\<close>

text \<open>
  The fragment of JavaScript regular expressions that the program uses: a literal code
  unit, a negated character class whose members are \<open>\s\<close> or literal code units,
  concatenation and \<open>+\<close>. \<open>Null\<close>, \<open>Eps\<close>, \<open>Alt\<close> and \<open>Star\<close> are there for the
  matcher, which works by derivatives. \<open>r+\<close> is \<open>r\<close> followed by \<open>r*\<close>.
\<close>

datatype class_member = Space_class | Unit code_unit

fun in_class :: "class_member \<Rightarrow> code_unit \<Rightarrow> bool" where
  "in_class Space_class c = is_space c"
| "in_class (Unit u) c = (c = u)"

datatype regex =
    Null
  | Eps
  | Chr code_unit
  | Not_in "class_member list"
  | Alt regex regex
  | Seq regex regex
  | Star regex

definition Plus :: "regex \<Rightarrow> regex" where
  "Plus r = Seq r (Star r)"

fun nullable :: "regex \<Rightarrow> bool" where
  "nullable Null = False"
| "nullable Eps = True"
| "nullable (Chr u) = False"
| "nullable (Not_in ms) = False"
| "nullable (Alt r s) = (nullable r \<or> nullable s)"
| "nullable (Seq r s) = (nullable r \<and> nullable s)"
| "nullable (Star r) = True"

fun deriv :: "code_unit \<Rightarrow> regex \<Rightarrow> regex" where
  "deriv c Null = Null"
| "deriv c Eps = Null"
| "deriv c (Chr u) = (if c = u then Eps else Null)"
| "deriv c (Not_in ms) = (if list_ex (\<lambda>m. in_class m c) ms then Null else Eps)"
| "deriv c (Alt r s) = Alt (deriv c r) (deriv c s)"
| "deriv c (Seq r s) =
     (if nullable r then Alt (Seq (deriv c r) s) (deriv c s) else Seq (deriv c r) s)"
| "deriv c (Star r) = Seq (deriv c r) (Star r)"

text \<open>
  \<open>regex_test r s\<close> is \<open>/^r$/.test(s)\<close>: without the \<open>m\<close> flag, \<open>^\<close> and \<open>$\<close> anchor
  the match at the two ends of the input, so the whole string has to match \<open>r\<close>.
\<close>

fun regex_test :: "regex \<Rightarrow> jsstring \<Rightarrow> bool" where
  "regex_test r [] = nullable r"
| "regex_test r (c # cs) = regex_test (deriv c r) cs"

text \<open>The pattern \<^verbatim>\<open>/^[^\s@]+@[^\s@]+\.[^\s@]+$/\<close> of the handler and of the form.\<close>

definition emailRegex :: regex where
  "emailRegex =
     Seq (Plus (Not_in [Space_class, Unit at_sign]))
       (Seq (Chr at_sign)
         (Seq (Plus (Not_in [Space_class, Unit at_sign]))
           (Seq (Chr full_stop)
             (Plus (Not_in [Space_class, Unit at_sign])))))"

text \<open>
  \<open>encodeURIComponent\<close> raises \<open>URIError\<close> on a string with an unpaired surrogate: a
  low surrogate that follows no high one, or a high surrogate that no low one follows.
  \<open>uri_encodable s\<close> says that it returns.
\<close>

definition is_high_surrogate :: "code_unit \<Rightarrow> bool" where
  "is_high_surrogate c = (0xD800 \<le> c \<and> c \<le> 0xDBFF)"

definition is_low_surrogate :: "code_unit \<Rightarrow> bool" where
  "is_low_surrogate c = (0xDC00 \<le> c \<and> c \<le> 0xDFFF)"

fun uri_encodable :: "jsstring \<Rightarrow> bool" where
  "uri_encodable [] = True"
| "uri_encodable [c] = (\<not> is_low_surrogate c \<and> \<not> is_high_surrogate c)"
| "uri_encodable (c # d # cs) =
     (if is_low_surrogate c then False
      else if is_high_surrogate c then is_low_surrogate d \<and> uri_encodable cs
      else uri_encodable (d # cs))"

section \<open>The dispatch handler (supabase/functions/send-contact-email/index.ts)\<close>

subsection \<open>Requests, responses and the environment\<close>

text \<open>
  The body of a request is read at its declared type \<open>ContactFormData\<close>: four string
  properties, each of which may be absent from the JSON object. A rejected
  \<open>await req.json()\<close> (the body is not JSON, or cannot be destructured) is \<open>Inl\<close> of the
  exception's message.
\<close>

record ContactFormData =
  name :: "jsstring option"
  email :: "jsstring option"
  subject :: "jsstring option"
  message :: "jsstring option"

record request =
  "method" :: string
  json :: "jsstring + ContactFormData"

datatype json_value = JString jsstring | JBool bool

text \<open>A response: its status, its headers and the object that was serialised as its body
  (\<open>None\<close> for the \<open>null\<close> body of the preflight response).\<close>

record response =
  status :: nat
  headers :: "(string \<times> string) list"
  body :: "(string \<times> json_value) list option"

text \<open>The call to the delivery provider: the \<open>Authorization\<close> header and the properties
  of the JSON body. The rendered \<open>html\<close> property is not part of the model.\<close>

record resend_request =
  authorization :: jsstring
  mail_from :: jsstring
  mail_to :: "jsstring list"
  mail_reply_to :: jsstring
  mail_subject :: jsstring

text \<open>What the provider answers: \<open>resendResponse.ok\<close> and the outcome of
  \<open>await resendResponse.json()\<close> with the two properties the handler reads, or \<open>Inl\<close> of
  the message of the exception that reading it raises.\<close>

record resend_data =
  resend_message :: "jsstring option"
  resend_id :: "jsstring option"

record resend_response =
  ok :: bool
  resend_json :: "jsstring + resend_data"

text \<open>The environment of one invocation: the two configuration values of
  \<open>Deno.env\<close>, and the provider as a function from the call to its outcome (\<open>Inl\<close>: the
  \<open>fetch\<close> itself is rejected).\<close>

record environment =
  RESEND_API_KEY :: "jsstring option"
  RECEIVING_EMAIL :: "jsstring option"
  resend :: "resend_request \<Rightarrow> jsstring + resend_response"

definition corsHeaders :: "(string \<times> string) list" where
  "corsHeaders =
     [(''Access-Control-Allow-Origin'', ''*''),
      (''Access-Control-Allow-Methods'', ''GET, POST, PUT, DELETE, OPTIONS''),
      (''Access-Control-Allow-Headers'', ''Content-Type, Authorization, X-Client-Info, Apikey'')]"

text \<open>\<open>new Response(JSON.stringify(obj), {status, headers: {...corsHeaders, "Content-Type":
  "application/json"}})\<close>.\<close>

definition json_response :: "nat \<Rightarrow> (string \<times> json_value) list \<Rightarrow> response" where
  "json_response code obj =
     \<lparr>status = code,
      headers = corsHeaders @ [(''Content-Type'', ''application/json'')],
      body = Some obj\<rparr>"

text \<open>The \<open>catch\<close> block at the end of the handler.\<close>

definition internal_server_error :: "jsstring \<Rightarrow> response" where
  "internal_server_error msg =
     json_response 500
       [(''error'', JString (lit ''Internal server error'')), (''details'', JString msg)]"

subsection \<open>The handler\<close>

text \<open>
  A run of the handler gives the response and the calls made to the delivery provider,
  in order. Lines 91 to 267: configuration, subject line, the call and its outcome. The
  arguments of \<open>fetch\<close> are evaluated before the call, and among them is
  \<open>encodeURIComponent(subject || 'Your inquiry')\<close>, which may raise.
\<close>

definition emailSubject :: "ContactFormData \<Rightarrow> jsstring" where
  "emailSubject d =
     (if truthy (subject d) then lit ''Contact Form: '' @ to_string (subject d)
      else lit ''New Contact Form Submission from '' @ to_string (name d))"

definition send_email :: "environment \<Rightarrow> ContactFormData \<Rightarrow> response \<times> resend_request list" where
  "send_email env d =
     (if \<not> truthy (RESEND_API_KEY env) then
        (json_response 500 [(''error'', JString (lit ''Server configuration error''))], [])
      else if \<not> uri_encodable (or_else (subject d) (lit ''Your inquiry'')) then
        (internal_server_error (lit ''URI malformed''), [])
      else
        let call =
              \<lparr>authorization = lit ''Bearer '' @ to_string (RESEND_API_KEY env),
               mail_from = lit ''Neptrax Contact Form <onboarding@resend.dev>'',
               mail_to = [or_else (RECEIVING_EMAIL env) (lit ''info@neptrax.com'')],
               mail_reply_to = to_string (email d),
               mail_subject = emailSubject d\<rparr>
        in
          (case resend env call of
             Inl msg \<Rightarrow> (internal_server_error msg, [call])
           | Inr resendResponse \<Rightarrow>
               (case resend_json resendResponse of
                  Inl msg \<Rightarrow> (internal_server_error msg, [call])
                | Inr resendData \<Rightarrow>
                    if \<not> ok resendResponse then
                      (json_response 500
                         [(''error'', JString (lit ''Failed to send email'')),
                          (''details'',
                             JString (or_else (resend_message resendData) (lit ''Unknown error'')))],
                       [call])
                    else
                      (json_response 200
                         ([(''success'', JBool True),
                           (''message'', JString (lit ''Email sent successfully''))] @
                          (case resend_id resendData of
                             None \<Rightarrow> []
                           | Some i \<Rightarrow> [(''id'', JString i)])),
                       [call]))))"

definition handler :: "environment \<Rightarrow> request \<Rightarrow> response \<times> resend_request list" where
  "handler env req =
     (if method req = ''OPTIONS'' then
        (\<lparr>status = 200, headers = corsHeaders, body = None\<rparr>, [])
      else if method req \<noteq> ''POST'' then
        (json_response 405 [(''error'', JString (lit ''Method not allowed''))], [])
      else
        (case json req of
           Inl msg \<Rightarrow> (internal_server_error msg, [])
         | Inr d \<Rightarrow>
             if \<not> truthy (name d) \<or> \<not> truthy (email d) \<or> \<not> truthy (message d) then
               (json_response 400
                  [(''error'', JString (lit ''Missing required fields'')),
                   (''details'', JString (lit ''name, email, and message are all required''))],
                [])
             else if \<not> regex_test emailRegex (to_string (email d)) then
               (json_response 400 [(''error'', JString (lit ''Invalid email format''))], [])
             else if length (trim (to_string (message d))) < 10 then
               (json_response 400
                  [(''error'', JString (lit ''Message too short'')),
                   (''details'', JString (lit ''Message must be at least 10 characters long''))],
                [])
             else send_email env d))"

section \<open>The contact form (the component \<open>Contact\<close>)\<close>

text \<open>
  The state of the component: the four controlled inputs (always strings), the
  submitting flag, the status shown to the operator and the validation errors, an object
  with the optional properties \<open>email\<close> and \<open>message\<close>.
\<close>

record form_data =
  f_name :: jsstring
  f_email :: jsstring
  f_subject :: jsstring
  f_message :: jsstring

datatype status_type = Success | Error

record submit_status =
  status_type :: "status_type option"
  status_message :: jsstring

record validation_errors =
  email_error :: "jsstring option"
  message_error :: "jsstring option"

record form_state =
  formData :: form_data
  isSubmitting :: bool
  submitStatus :: submit_status
  validationErrors :: validation_errors

text \<open>The POST that the form issues, and what comes back: \<open>response.ok\<close> and the
  outcome of \<open>await response.json()\<close>, of which the form reads the property \<open>error\<close>.\<close>

record form_post =
  post_url :: jsstring
  post_authorization :: jsstring
  post_body :: form_data

record endpoint_response =
  response_ok :: bool
  response_json :: "jsstring + jsstring option"

record form_env =
  VITE_SUPABASE_URL :: "jsstring option"
  VITE_SUPABASE_ANON_KEY :: "jsstring option"
  endpoint :: "form_post \<Rightarrow> jsstring + endpoint_response"

text \<open>\<open>validateForm\<close> builds the error object, stores it with \<open>setValidationErrors\<close> and
  returns whether it has no key.\<close>

definition validateForm :: "form_state \<Rightarrow> bool \<times> form_state" where
  "validateForm st =
     (let errors =
            \<lparr>email_error =
               (if f_email (formData st) \<noteq> [] \<and> \<not> regex_test emailRegex (f_email (formData st))
                then Some (lit ''Please enter a valid email address'') else None),
             message_error =
               (if f_message (formData st) \<noteq> [] \<and> length (trim (f_message (formData st))) < 10
                then Some (lit ''Message must be at least 10 characters long'') else None)\<rparr>
      in (email_error errors = None \<and> message_error errors = None,
          st\<lparr>validationErrors := errors\<rparr>))"

text \<open>\<open>handleSubmit\<close> gives the state after all its setters have run, and the POSTs it
  issued.\<close>

definition network_error :: submit_status where
  "network_error =
     \<lparr>status_type = Some Error,
      status_message = lit ''Network error. Please check your connection and try again.''\<rparr>"

definition handleSubmit :: "form_env \<Rightarrow> form_state \<Rightarrow> form_state \<times> form_post list" where
  "handleSubmit env st =
     (case validateForm st of
        (valid, st1) \<Rightarrow>
          if \<not> valid then
            (st1\<lparr>submitStatus :=
                   \<lparr>status_type = Some Error,
                    status_message = lit ''Please fix the validation errors before submitting.''\<rparr>\<rparr>,
             [])
          else
            let st2 = st1\<lparr>isSubmitting := True,
                           submitStatus := \<lparr>status_type = None, status_message = []\<rparr>\<rparr>;
                post =
                  \<lparr>post_url = to_string (VITE_SUPABASE_URL env) @ lit ''/functions/v1/send-contact-email'',
                   post_authorization = lit ''Bearer '' @ to_string (VITE_SUPABASE_ANON_KEY env),
                   post_body = formData st\<rparr>;
                st3 =
                  (case endpoint env post of
                     Inl msg \<Rightarrow> st2\<lparr>submitStatus := network_error\<rparr>
                   | Inr response \<Rightarrow>
                       (case response_json response of
                          Inl msg \<Rightarrow> st2\<lparr>submitStatus := network_error\<rparr>
                        | Inr data_error \<Rightarrow>
                            if response_ok response then
                              st2\<lparr>submitStatus :=
                                     \<lparr>status_type = Some Success,
                                      status_message =
                                        lit ''Thank you for your message! We will get back to you soon.''\<rparr>,
                                   formData :=
                                     \<lparr>f_name = [], f_email = [], f_subject = [], f_message = []\<rparr>,
                                   validationErrors := \<lparr>email_error = None, message_error = None\<rparr>\<rparr>
                            else
                              st2\<lparr>submitStatus :=
                                     \<lparr>status_type = Some Error,
                                      status_message =
                                        or_else data_error
                                          (lit ''Failed to send message. Please try again.'')\<rparr>\<rparr>))
            in (st3\<lparr>isSubmitting := False\<rparr>, [post]))"

section \<open>What the email pattern accepts\<close>

text \<open>The language of a regular expression, against which the matcher is verified.\<close>

inductive_set star :: "jsstring set \<Rightarrow> jsstring set" for A :: "jsstring set" where
  star_empty: "[] \<in> star A"
| star_step: "u \<in> A \<Longrightarrow> v \<in> star A \<Longrightarrow> u @ v \<in> star A"

fun lang :: "regex \<Rightarrow> jsstring set" where
  "lang Null = {}"
| "lang Eps = {[]}"
| "lang (Chr u) = {[u]}"
| "lang (Not_in ms) = {[c] | c. \<not> list_ex (\<lambda>m. in_class m c) ms}"
| "lang (Alt r s) = lang r \<union> lang s"
| "lang (Seq r s) = {u @ v | u v. u \<in> lang r \<and> v \<in> lang s}"
| "lang (Star r) = star (lang r)"

text \<open>
  The shape that the pattern accepts, in plain terms: no white space, exactly one
  \<open>@\<close>, something before it, and after it a \<open>.\<close> that is neither the first nor the
  last code unit of what follows the \<open>@\<close>. \<open>plain w\<close>: a non-empty run without white
  space and without \<open>@\<close>, what \<^verbatim>\<open>[^\s@]+\<close> matches.
\<close>

definition plain :: "jsstring \<Rightarrow> bool" where
  "plain w = (w \<noteq> [] \<and> (\<forall>c\<in>set w. \<not> is_space c \<and> c \<noteq> at_sign))"

definition local_part :: "jsstring \<Rightarrow> jsstring" where
  "local_part s = takeWhile (\<lambda>c. c \<noteq> at_sign) s"

definition domain_part :: "jsstring \<Rightarrow> jsstring" where
  "domain_part s = tl (dropWhile (\<lambda>c. c \<noteq> at_sign) s)"

definition email_shape :: "jsstring \<Rightarrow> bool" where
  "email_shape s =
     (\<not> list_ex is_space s \<and> count_list s at_sign = 1 \<and> local_part s \<noteq> [] \<and>
      full_stop \<in> set (butlast (tl (domain_part s))))"

text \<open>
  The shape as the specification words it: "at least one \<open>@\<close>, at least one \<open>.\<close>
  after it, no whitespace". A \<open>.\<close> after some \<open>@\<close> is a \<open>.\<close> after the first one.
\<close>

definition spec_email_shape :: "jsstring \<Rightarrow> bool" where
  "spec_email_shape s =
     (at_sign \<in> set s \<and> full_stop \<in> set (domain_part s) \<and> \<not> list_ex is_space s)"

text \<open>A submission is valid when it passes the three checks of the handler (lines 41 to
  89): required fields, email format, message length.\<close>

definition valid_submission :: "ContactFormData \<Rightarrow> bool" where
  "valid_submission d =
     (truthy (name d) \<and> truthy (email d) \<and> truthy (message d) \<and>
      regex_test emailRegex (to_string (email d)) \<and>
      10 \<le> length (trim (to_string (message d))))"

section \<open>Scenarios\<close>

text \<open>Concrete inputs, after the end-to-end scenarios of the specification: an
  environment with an API key whose provider accepts every call and assigns the id
  \<open>abc123\<close>, a POST request with a parsed body, and the submissions of scenarios A and C.\<close>

definition scenario_env :: environment where
  "scenario_env =
     \<lparr>RESEND_API_KEY = Some (lit ''re_key''),
      RECEIVING_EMAIL = None,
      resend = (\<lambda>call. Inr \<lparr>ok = True,
                 resend_json = Inr \<lparr>resend_message = None, resend_id = Some (lit ''abc123'')\<rparr>\<rparr>)\<rparr>"

definition post :: "ContactFormData \<Rightarrow> request" where
  "post d = \<lparr>method = ''POST'', json = Inr d\<rparr>"

definition scenario_A :: ContactFormData where
  "scenario_A =
     \<lparr>name = Some (lit ''Ada''), email = Some (lit ''ada@example.com''), subject = None,
      message = Some (lit ''Hello, this is a test message.'')\<rparr>"

definition scenario_C :: ContactFormData where
  "scenario_C =
     \<lparr>name = Some [], email = Some (lit ''bob@example.com''), subject = None,
      message = Some (lit ''short'')\<rparr>"

text \<open>Variants of scenario A: an email with two \<open>@\<close>, an empty message, a name that
  is one space, and a subject.\<close>

definition double_at :: ContactFormData where
  "double_at = scenario_A\<lparr>email := Some (lit ''a@@b.c'')\<rparr>"

definition empty_message :: ContactFormData where
  "empty_message = scenario_A\<lparr>message := Some []\<rparr>"

definition blank_name :: ContactFormData where
  "blank_name = scenario_A\<lparr>name := Some (lit '' '')\<rparr>"

definition with_subject :: ContactFormData where
  "with_subject = scenario_A\<lparr>subject := Some (lit ''Pricing'')\<rparr>"

text \<open>The form as it is first rendered, the form of the form-level scenario (an email
  without \<open>@\<close>), and an environment whose endpoint answers every POST with success.\<close>

definition initial_form :: form_state where
  "initial_form =
     \<lparr>formData = \<lparr>f_name = [], f_email = [], f_subject = [], f_message = []\<rparr>,
      isSubmitting = False,
      submitStatus = \<lparr>status_type = None, status_message = []\<rparr>,
      validationErrors = \<lparr>email_error = None, message_error = None\<rparr>\<rparr>"

definition not_an_email_form :: form_state where
  "not_an_email_form =
     initial_form\<lparr>formData :=
       \<lparr>f_name = lit ''Ada'', f_email = lit ''not-an-email'', f_subject = [],
        f_message = lit ''Hello, this is a test message.''\<rparr>\<rparr>"

definition scenario_form_env :: form_env where
  "scenario_form_env =
     \<lparr>VITE_SUPABASE_URL = Some (lit ''https://example.supabase.co''),
      VITE_SUPABASE_ANON_KEY = Some (lit ''anon''),
      endpoint = (\<lambda>p. Inr \<lparr>response_ok = True, response_json = Inr None\<rparr>)\<rparr>"

section \<open>The order of the checks, as the specification lists it\<close>

text \<open>
  The checks of the request-handling state machine after the preflight, in the order of
  the specification, each as a condition of its own on the request and the environment
  (\<open>spec_fails\<close>), with the response that the specification gives for its failure
  (\<open>spec_rejection\<close>). The handler is compared with "the first check of the list that
  fails decides".
\<close>

datatype check = Method | Parse | Required_fields | Email_format | Message_length | Configuration

definition spec_check_order :: "check list" where
  "spec_check_order = [Method, Parse, Required_fields, Email_format, Message_length, Configuration]"

fun spec_fails :: "environment \<Rightarrow> request \<Rightarrow> check \<Rightarrow> bool" where
  "spec_fails env req Method = (method req \<noteq> ''POST'')"
| "spec_fails env req Parse = (case json req of Inl msg \<Rightarrow> True | Inr d \<Rightarrow> False)"
| "spec_fails env req Required_fields =
     (case json req of Inl msg \<Rightarrow> False
      | Inr d \<Rightarrow> \<not> truthy (name d) \<or> \<not> truthy (email d) \<or> \<not> truthy (message d))"
| "spec_fails env req Email_format =
     (case json req of Inl msg \<Rightarrow> False
      | Inr d \<Rightarrow> \<not> regex_test emailRegex (to_string (email d)))"
| "spec_fails env req Message_length =
     (case json req of Inl msg \<Rightarrow> False
      | Inr d \<Rightarrow> length (trim (to_string (message d))) < 10)"
| "spec_fails env req Configuration = (\<not> truthy (RESEND_API_KEY env))"

fun spec_rejection :: "request \<Rightarrow> check \<Rightarrow> response" where
  "spec_rejection req Method = json_response 405 [(''error'', JString (lit ''Method not allowed''))]"
| "spec_rejection req Parse =
     json_response 500
       [(''error'', JString (lit ''Internal server error'')),
        (''details'', JString (case json req of Inl msg \<Rightarrow> msg | Inr d \<Rightarrow> []))]"
| "spec_rejection req Required_fields =
     json_response 400
       [(''error'', JString (lit ''Missing required fields'')),
        (''details'', JString (lit ''name, email, and message are all required''))]"
| "spec_rejection req Email_format =
     json_response 400 [(''error'', JString (lit ''Invalid email format''))]"
| "spec_rejection req Message_length =
     json_response 400
       [(''error'', JString (lit ''Message too short'')),
        (''details'', JString (lit ''Message must be at least 10 characters long''))]"
| "spec_rejection req Configuration =
     json_response 500 [(''error'', JString (lit ''Server configuration error''))]"

section \<open>The matcher decides the language\<close>

lemma nullable_lang: "nullable r \<longleftrightarrow> [] \<in> lang r"
  by (induction r) (auto intro: star.star_empty)

lemma star_Cons:
  "c # w \<in> star A \<longleftrightarrow> (\<exists>u v. w = u @ v \<and> c # u \<in> A \<and> v \<in> star A)"
proof
  assume "c # w \<in> star A"
  then show "\<exists>u v. w = u @ v \<and> c # u \<in> A \<and> v \<in> star A"
  proof (induction "c # w" rule: star.induct)
    case (star_step u v)
    show ?case
    proof (cases u)
      case Nil
      with star_step show ?thesis by simp
    next
      case (Cons a u')
      with star_step show ?thesis by auto
    qed
  qed
next
  assume "\<exists>u v. w = u @ v \<and> c # u \<in> A \<and> v \<in> star A"
  then obtain u v where "w = u @ v" "c # u \<in> A" "v \<in> star A" by blast
  then show "c # w \<in> star A"
    using star.star_step [of "c # u" A v] by simp
qed

lemma lang_deriv: "w \<in> lang (deriv c r) \<longleftrightarrow> c # w \<in> lang r"
proof (induction r arbitrary: w)
  case (Seq r s)
  then show ?case
    by (auto simp: nullable_lang Cons_eq_append_conv)
next
  case (Star r)
  then show ?case
    by (auto simp: star_Cons)
qed auto

lemma regex_test_lang: "regex_test r w \<longleftrightarrow> w \<in> lang r"
  by (induction w arbitrary: r) (simp_all add: nullable_lang lang_deriv)

lemma star_units: "w \<in> star {[c] | c. P c} \<longleftrightarrow> (\<forall>c\<in>set w. P c)"
proof (induction w)
  case Nil
  show ?case by (simp add: star.star_empty)
next
  case (Cons a w)
  then show ?case by (auto simp: star_Cons)
qed

lemma unit_prefix:
  "(\<exists>u v. a # w = u @ v \<and> (\<exists>c. u = [c] \<and> P c) \<and> Q v) \<longleftrightarrow> P a \<and> Q w"
proof
  assume "P a \<and> Q w"
  then have "a # w = [a] @ w \<and> (\<exists>c. [a] = [c] \<and> P c) \<and> Q w" by simp
  then show "\<exists>u v. a # w = u @ v \<and> (\<exists>c. u = [c] \<and> P c) \<and> Q v" by blast
qed auto

lemma lang_Plus_class:
  "w \<in> lang (Plus (Not_in [Space_class, Unit at_sign])) \<longleftrightarrow> plain w"
proof (cases w)
  case Nil
  then show ?thesis by (simp add: Plus_def plain_def)
next
  case (Cons a w')
  have "a # w' \<in> lang (Plus (Not_in [Space_class, Unit at_sign])) \<longleftrightarrow>
      (\<exists>u v. a # w' = u @ v \<and> (\<exists>c. u = [c] \<and> (\<not> is_space c \<and> c \<noteq> at_sign)) \<and>
         (\<forall>c\<in>set v. \<not> is_space c \<and> c \<noteq> at_sign))"
    by (simp add: Plus_def star_units)
  also have "\<dots> \<longleftrightarrow> (\<not> is_space a \<and> a \<noteq> at_sign) \<and> (\<forall>c\<in>set w'. \<not> is_space c \<and> c \<noteq> at_sign)"
    by (rule unit_prefix)
  finally show ?thesis using Cons by (simp add: plain_def)
qed

lemma lang_emailRegex:
  "s \<in> lang emailRegex \<longleftrightarrow>
     (\<exists>l d t. s = l @ at_sign # d @ full_stop # t \<and> plain l \<and> plain d \<and> plain t)"
proof -
  let ?P = "Plus (Not_in [Space_class, Unit at_sign])"
  have "s \<in> lang emailRegex \<longleftrightarrow>
      (\<exists>l d t. s = l @ [at_sign] @ d @ [full_stop] @ t \<and> l \<in> lang ?P \<and> d \<in> lang ?P \<and> t \<in> lang ?P)"
    unfolding emailRegex_def lang.simps by blast
  then show ?thesis by (simp add: lang_Plus_class)
qed


lemma not_space_at_sign: "\<not> is_space at_sign"
  by (simp add: is_space_def white_space_def)

lemma not_space_full_stop: "\<not> is_space full_stop"
  by (simp add: is_space_def white_space_def)

lemma split_shape:
  assumes "s = l @ at_sign # d @ full_stop # t" "plain l" "plain d" "plain t"
  shows "email_shape s"
proof -
  from assms have l: "\<forall>c\<in>set l. c \<noteq> at_sign" and "l \<noteq> []" "d \<noteq> []" "t \<noteq> []"
    by (auto simp: plain_def)
  have "\<not> list_ex is_space s"
    using assms not_space_at_sign not_space_full_stop by (auto simp: plain_def list_ex_iff)
  moreover have "count_list s at_sign = 1"
  proof -
    have "count_list l at_sign = 0" "count_list d at_sign = 0" "count_list t at_sign = 0"
      using assms by (auto simp: plain_def count_list_0_iff)
    then show ?thesis using assms(1) by simp
  qed
  moreover have "local_part s = l"
    using l assms(1) by (simp add: local_part_def)
  moreover have "domain_part s = d @ full_stop # t"
    using l assms(1) by (simp add: domain_part_def)
  moreover have "butlast (tl (d @ full_stop # t)) = tl d @ full_stop # butlast t"
    using \<open>d \<noteq> []\<close> \<open>t \<noteq> []\<close> by (simp add: butlast_append)
  ultimately show ?thesis using \<open>l \<noteq> []\<close> by (simp add: email_shape_def)
qed

lemma shape_split:
  assumes "email_shape s"
  shows "\<exists>l d t. s = l @ at_sign # d @ full_stop # t \<and> plain l \<and> plain d \<and> plain t"
proof -
  let ?P = "\<lambda>c. c \<noteq> at_sign"
  let ?l = "local_part s" and ?m = "domain_part s"
  from assms have ns: "\<forall>c\<in>set s. \<not> is_space c" and one: "count_list s at_sign = 1"
    and l: "?l \<noteq> []" and dot: "full_stop \<in> set (butlast (tl ?m))"
    by (auto simp: email_shape_def list_ex_iff)
  from one have "at_sign \<in> set s"
    using count_list_0_iff [of s at_sign] by auto
  then have ne: "dropWhile ?P s \<noteq> []" by auto
  then have "hd (dropWhile ?P s) = at_sign"
    using hd_dropWhile [of ?P s] by simp
  with ne have dw: "dropWhile ?P s = at_sign # ?m"
    by (cases "dropWhile ?P s") (auto simp: domain_part_def)
  have s: "s = ?l @ at_sign # ?m"
    using takeWhile_dropWhile_id [of ?P s] dw by (simp add: local_part_def)
  have "count_list s at_sign = count_list ?l at_sign + 1 + count_list ?m at_sign"
    by (subst s) simp
  with one have "count_list ?l at_sign = 0" "count_list ?m at_sign = 0" by auto
  then have nl: "at_sign \<notin> set ?l" and nm: "at_sign \<notin> set ?m"
    by (simp_all add: count_list_0_iff)
  from dot obtain xs ys where bl: "butlast (tl ?m) = xs @ full_stop # ys"
    by (auto simp: in_set_conv_decomp)
  then have tne: "tl ?m \<noteq> []" by auto
  then have mne: "?m \<noteq> []" by auto
  have "tl ?m = butlast (tl ?m) @ [last (tl ?m)]" using tne by simp
  with bl have "tl ?m = xs @ full_stop # ys @ [last (tl ?m)]" by simp
  define d where "d = hd ?m # xs"
  define t where "t = ys @ [last (tl ?m)]"
  from mne \<open>tl ?m = xs @ full_stop # ys @ [last (tl ?m)]\<close>
  have m: "?m = d @ full_stop # t"
    unfolding d_def t_def by (cases ?m) auto
  have "set ?l \<subseteq> set (?l @ at_sign # ?m)" "set ?m \<subseteq> set (?l @ at_sign # ?m)"
    by auto
  then have sub: "set ?l \<subseteq> set s" "set ?m \<subseteq> set s"
    using s by simp_all
  have "set d \<subseteq> set (d @ full_stop # t)" "set t \<subseteq> set (d @ full_stop # t)"
    by auto
  then have dt: "set d \<subseteq> set ?m" "set t \<subseteq> set ?m"
    using m by simp_all
  have "plain ?l" using l nl ns sub by (auto simp: plain_def)
  moreover have "plain d"
    using nm ns sub dt by (auto simp: plain_def d_def)
  moreover have "plain t"
    using nm ns sub dt by (auto simp: plain_def t_def)
  moreover have "s = ?l @ at_sign # d @ full_stop # t"
    using s m by simp
  ultimately show ?thesis by blast
qed

lemma regex_test_emailRegex: "regex_test emailRegex s \<longleftrightarrow> email_shape s"
  using split_shape shape_split by (auto simp: regex_test_lang lang_emailRegex)

lemma email_shape_spec:
  assumes "email_shape s"
  shows "spec_email_shape s"
proof -
  from assms have "count_list s at_sign \<noteq> 0" by (simp add: email_shape_def)
  then have "at_sign \<in> set s" by (simp add: count_list_0_iff)
  moreover have "full_stop \<in> set (domain_part s)"
    using assms by (cases "domain_part s") (auto simp: email_shape_def dest: in_set_butlastD list.set_sel(2))
  ultimately show ?thesis using assms by (simp add: spec_email_shape_def email_shape_def)
qed



section \<open>Facts about the handler\<close>

lemma falsy_iff: "\<not> truthy v \<longleftrightarrow> v = None \<or> v = Some []"
  by (cases v) auto

lemma handler_valid:
  assumes "method req = ''POST''" "json req = Inr d" "valid_submission d"
  shows "handler env req = send_email env d"
  using assms by (simp add: handler_def valid_submission_def)

lemma handler_invalid:
  assumes "json req = Inr d" "\<not> valid_submission d"
  shows "snd (handler env req) = []" "method req = ''POST'' \<Longrightarrow> status (fst (handler env req)) = 400"
  using assms by (auto simp: handler_def valid_submission_def json_response_def)

lemma status_send_email: "status (fst (send_email env d)) \<in> {200, 500}"
  by (simp add: send_email_def json_response_def internal_server_error_def Let_def split: sum.splits)

lemma headers_send_email:
  "headers (fst (send_email env d)) = corsHeaders @ [(''Content-Type'', ''application/json'')]"
  by (simp add: send_email_def json_response_def internal_server_error_def Let_def split: sum.splits)

lemma headers_handler:
  "headers (fst (handler env req)) =
     (if method req = ''OPTIONS'' then corsHeaders
      else corsHeaders @ [(''Content-Type'', ''application/json'')])"
  by (simp add: handler_def headers_send_email json_response_def internal_server_error_def
      split: sum.splits)

lemma calls_send_email:
  "snd (send_email env d) = [] \<or>
   (\<exists>c. snd (send_email env d) = [c] \<and> mail_subject c = emailSubject d \<and>
        mail_reply_to c = to_string (email d))"
  by (simp add: send_email_def Let_def split: sum.splits)

lemma send_email_dispatches:
  assumes "truthy (RESEND_API_KEY env)" "uri_encodable (or_else (subject d) (lit ''Your inquiry''))"
  shows "length (snd (send_email env d)) = 1"
  using assms by (simp add: send_email_def Let_def split: sum.splits)

lemma first_failure:
  "find (spec_fails env req) spec_check_order =
     (if method req \<noteq> ''POST'' then Some Method
      else case json req of
        Inl msg \<Rightarrow> Some Parse
      | Inr d \<Rightarrow>
          if \<not> truthy (name d) \<or> \<not> truthy (email d) \<or> \<not> truthy (message d)
            then Some Required_fields
          else if \<not> regex_test emailRegex (to_string (email d)) then Some Email_format
          else if length (trim (to_string (message d))) < 10 then Some Message_length
          else if \<not> truthy (RESEND_API_KEY env) then Some Configuration
          else None)"
  by (simp add: spec_check_order_def split: sum.splits)

section \<open>The required-field check\<close>

text \<open>
  C3. A POST request whose body was read, and in which \<open>name\<close>, \<open>email\<close> or \<open>message\<close>
  is absent or the empty string, is answered with status 400 and the body
  \<open>{error: "Missing required fields", details: "name, email, and message are all
  required"}\<close>, whatever the other fields and the environment are; no call is made.
\<close>

theorem missing_field_rejected:
  assumes "method req = ''POST''" and "json req = Inr d"
    and "name d \<in> {None, Some []} \<or> email d \<in> {None, Some []} \<or> message d \<in> {None, Some []}"
  shows "handler env req =
           (json_response 400
              [(''error'', JString (lit ''Missing required fields'')),
               (''details'', JString (lit ''name, email, and message are all required''))],
            [])"
  using assms by (auto simp: handler_def)

theorem missing_field_rejected_witness:
  "method (post scenario_C) = ''POST'' \<and> json (post scenario_C) = Inr scenario_C \<and>
   name scenario_C = Some [] \<and>
   handler scenario_env (post scenario_C) =
     (json_response 400
        [(''error'', JString (lit ''Missing required fields'')),
         (''details'', JString (lit ''name, email, and message are all required''))],
      [])"
  using missing_field_rejected [of "post scenario_C" scenario_C scenario_env]
  by (simp add: post_def scenario_C_def)

section \<open>The order of the checks\<close>

text \<open>
  C5. For a request that is not a preflight, the handler answers with the rejection of
  the first check that fails in the order method, parse, required fields, email format,
  message length, configuration, and makes no call; when none fails it goes on to send
  the email. In particular the submission \<open>{name: "", email: "bob@example.com", message:
  "short"}\<close> is answered with 400 "Missing required fields", although its message is
  also too short.
\<close>

theorem checks_in_order:
  assumes "method req \<noteq> ''OPTIONS''"
  shows "(\<forall>c. find (spec_fails env req) spec_check_order = Some c \<longrightarrow>
             handler env req = (spec_rejection req c, [])) \<and>
         (find (spec_fails env req) spec_check_order = None \<longrightarrow>
             (\<exists>d. json req = Inr d \<and> handler env req = send_email env d \<and>
                  status (fst (handler env req)) \<in> {200, 500})) \<and>
         handler env (post scenario_C) = (spec_rejection (post scenario_C) Required_fields, [])"
proof (intro conjI allI impI)
  fix c
  assume c: "find (spec_fails env req) spec_check_order = Some c"
  show "handler env req = (spec_rejection req c, [])"
  proof (cases "method req = ''POST''")
    case False
    with c assms show ?thesis by (simp add: first_failure handler_def)
  next
    case post: True
    show ?thesis
    proof (cases "json req")
      case (Inl msg)
      with c post show ?thesis
        by (auto simp: first_failure handler_def internal_server_error_def)
    next
      case (Inr d)
      show ?thesis
      proof (cases "valid_submission d")
        case False
        with c post Inr show ?thesis
          by (auto simp: first_failure handler_def valid_submission_def split: if_splits)
      next
        case True
        with c post Inr have "c = Configuration" "\<not> truthy (RESEND_API_KEY env)"
          by (auto simp: first_failure valid_submission_def split: if_splits)
        then show ?thesis
          using handler_valid [OF post Inr True] by (simp add: send_email_def)
      qed
    qed
  qed
next
  assume "find (spec_fails env req) spec_check_order = None"
  then have "method req = ''POST''" and "\<exists>d. json req = Inr d \<and> valid_submission d"
    by (auto simp: first_failure valid_submission_def split: if_splits sum.splits)
  then show "\<exists>d. json req = Inr d \<and> handler env req = send_email env d \<and>
      status (fst (handler env req)) \<in> {200, 500}"
    using handler_valid [of req _ env] status_send_email by metis
next
  show "handler env (post scenario_C) = (spec_rejection (post scenario_C) Required_fields, [])"
    by (simp add: handler_def post_def scenario_C_def)
qed

theorem checks_in_order_witness:
  "method (post scenario_C) \<noteq> ''OPTIONS'' \<and>
   find (spec_fails scenario_env (post scenario_C)) spec_check_order = Some Required_fields \<and>
   spec_fails scenario_env (post scenario_C) Message_length \<and>
   handler scenario_env (post scenario_C) =
     (json_response 400
        [(''error'', JString (lit ''Missing required fields'')),
         (''details'', JString (lit ''name, email, and message are all required''))],
      [])"
proof -
  have m: "method (post scenario_C) \<noteq> ''OPTIONS''" by (simp add: post_def)
  have f: "find (spec_fails scenario_env (post scenario_C)) spec_check_order = Some Required_fields"
    by (simp add: spec_check_order_def post_def scenario_C_def)
  have l: "spec_fails scenario_env (post scenario_C) Message_length"
    by (simp add: post_def scenario_C_def lit_def trim_def is_space_def white_space_def)
  from checks_in_order [OF m, of scenario_env] f
  have "handler scenario_env (post scenario_C) = (spec_rejection (post scenario_C) Required_fields, [])"
    by blast
  with m f l show ?thesis by simp
qed

section \<open>CORS headers\<close>

text \<open>
  C6. Every response of the handler carries the three CORS headers with the values of
  \<open>corsHeaders\<close>, and an OPTIONS request is answered with status 200, no body and
  exactly those headers, without any call.
\<close>

theorem cors_headers_everywhere:
  "map_of (headers (fst (handler env req))) ''Access-Control-Allow-Origin'' = Some ''*'' \<and>
   map_of (headers (fst (handler env req))) ''Access-Control-Allow-Methods'' =
     Some ''GET, POST, PUT, DELETE, OPTIONS'' \<and>
   map_of (headers (fst (handler env req))) ''Access-Control-Allow-Headers'' =
     Some ''Content-Type, Authorization, X-Client-Info, Apikey'' \<and>
   (method req = ''OPTIONS'' \<longrightarrow>
      handler env req = (\<lparr>status = 200, headers = corsHeaders, body = None\<rparr>, []))"
  by (simp add: headers_handler corsHeaders_def) (simp add: handler_def corsHeaders_def)

theorem cors_headers_everywhere_witness:
  "method \<lparr>method = ''OPTIONS'', json = Inl []\<rparr> = ''OPTIONS'' \<and>
   handler scenario_env \<lparr>method = ''OPTIONS'', json = Inl []\<rparr> =
     (\<lparr>status = 200, headers = corsHeaders, body = None\<rparr>, []) \<and>
   map_of (headers (fst (handler scenario_env (post scenario_A)))) ''Access-Control-Allow-Origin'' =
     Some ''*''"
  using cors_headers_everywhere [of scenario_env "\<lparr>method = ''OPTIONS'', json = Inl []\<rparr>"]
    cors_headers_everywhere [of scenario_env "post scenario_A"]
  by simp

section \<open>Facts about the scenarios\<close>

lemma regex_test_nonempty: "regex_test emailRegex e \<Longrightarrow> e \<noteq> []"
  by (auto simp: emailRegex_def Plus_def)

lemma ada_email: "regex_test emailRegex (lit ''ada@example.com'')"
  by (simp add: lit_def emailRegex_def Plus_def is_space_def white_space_def)

lemma ada_message: "length (trim (lit ''Hello, this is a test message.'')) = 30"
  by (simp add: lit_def trim_def is_space_def white_space_def)

lemma scenario_A_valid: "valid_submission scenario_A"
  by (simp add: valid_submission_def scenario_A_def ada_email ada_message) (simp add: lit_def)

lemma trim_blank:
  assumes "\<forall>c\<in>set m. is_space c"
  shows "trim m = []"
proof -
  from assms have d: "dropWhile is_space m = []" by simp
  show ?thesis unfolding trim_def d by simp
qed

section \<open>The email format check\<close>

text \<open>
  C1. The shape that the specification words ("at least one \<open>@\<close>, at least one \<open>.\<close> after
  it, no whitespace") is wider than what the pattern accepts: \<open>a@@b.c\<close> has that shape,
  fails the pattern and is answered with 400 "Invalid email format".
\<close>

theorem loose_shape_rejected:
  "spec_email_shape (lit ''a@@b.c'') \<and> \<not> regex_test emailRegex (lit ''a@@b.c'') \<and>
   handler scenario_env (post double_at) =
     (json_response 400 [(''error'', JString (lit ''Invalid email format''))], [])"
proof -
  have a: "spec_email_shape (lit ''a@@b.c'')"
    by (simp add: spec_email_shape_def domain_part_def lit_def is_space_def white_space_def)
  have b: "\<not> regex_test emailRegex (lit ''a@@b.c'')"
    by (simp add: lit_def emailRegex_def Plus_def is_space_def white_space_def)
  have "handler scenario_env (post double_at) =
     (json_response 400 [(''error'', JString (lit ''Invalid email format''))], [])"
    using b by (simp add: handler_def post_def double_at_def scenario_A_def) (simp add: lit_def)
  with a b show ?thesis by simp
qed


text \<open>
  C1, amended. In a POST request whose body was read and whose \<open>name\<close>, \<open>email\<close> and
  \<open>message\<close> are non-empty, the email format check passes exactly when the email has no
  white space, exactly one \<open>@\<close>, at least one code unit before it, and after it a \<open>.\<close>
  that is neither the first nor the last code unit of what follows the \<open>@\<close>. Every other
  email, and so every email that does not have the specification's shape, is answered
  with 400 \<open>{error: "Invalid email format"}\<close> and no call; an email that passes goes on
  to the message-length check.
\<close>

theorem email_format_check:
  assumes "method req = ''POST''" and "json req = Inr d"
    and "truthy (name d)" and "email d = Some e" and "e \<noteq> []" and "truthy (message d)"
  shows "(regex_test emailRegex e \<longleftrightarrow> email_shape e) \<and>
         (\<not> email_shape e \<longrightarrow>
            handler env req =
              (json_response 400 [(''error'', JString (lit ''Invalid email format''))], [])) \<and>
         (\<not> spec_email_shape e \<longrightarrow>
            handler env req =
              (json_response 400 [(''error'', JString (lit ''Invalid email format''))], [])) \<and>
         (email_shape e \<longrightarrow>
            fst (handler env req) \<noteq>
              json_response 400 [(''error'', JString (lit ''Invalid email format''))] \<and>
            handler env req =
              (if length (trim (to_string (message d))) < 10 then
                 (json_response 400
                    [(''error'', JString (lit ''Message too short'')),
                     (''details'', JString (lit ''Message must be at least 10 characters long''))],
                  [])
               else send_email env d))"
proof -
  have h: "handler env req =
      (if \<not> email_shape e then
         (json_response 400 [(''error'', JString (lit ''Invalid email format''))], [])
       else if length (trim (to_string (message d))) < 10 then
         (json_response 400
            [(''error'', JString (lit ''Message too short'')),
             (''details'', JString (lit ''Message must be at least 10 characters long''))],
          [])
       else send_email env d)"
    using assms by (simp add: handler_def regex_test_emailRegex)
  have "status (fst (send_email env d)) \<noteq> 400"
    using status_send_email [of env d] by auto
  then have s: "fst (send_email env d) \<noteq>
      json_response 400 [(''error'', JString (lit ''Invalid email format''))]"
    by (auto simp: json_response_def)
  have "\<not> spec_email_shape e \<Longrightarrow> \<not> email_shape e"
    using email_shape_spec by blast
  with h s show ?thesis
    by (simp add: regex_test_emailRegex json_response_def)
qed

theorem email_format_check_witness:
  "method (post scenario_A) = ''POST'' \<and> json (post scenario_A) = Inr scenario_A \<and>
   truthy (name scenario_A) \<and> email scenario_A = Some (lit ''ada@example.com'') \<and>
   truthy (message scenario_A) \<and>
   email_shape (lit ''ada@example.com'') \<and>
   handler scenario_env (post scenario_A) = send_email scenario_env scenario_A"
proof -
  have e: "email_shape (lit ''ada@example.com'')"
    using ada_email by (simp add: regex_test_emailRegex)
  have p: "method (post scenario_A) = ''POST''" "json (post scenario_A) = Inr scenario_A"
    by (simp_all add: post_def)
  have f: "truthy (name scenario_A)" "email scenario_A = Some (lit ''ada@example.com'')"
    "lit ''ada@example.com'' \<noteq> []" "truthy (message scenario_A)"
    by (simp_all add: scenario_A_def lit_def)
  have m: "\<not> length (trim (to_string (message scenario_A))) < 10"
    by (simp add: scenario_A_def ada_message)
  from email_format_check [OF p f, of scenario_env] e m
  have "handler scenario_env (post scenario_A) = send_email scenario_env scenario_A"
    by simp
  with e p f show ?thesis by simp
qed

section \<open>The message length check\<close>

text \<open>
  C4. The empty message has trimmed length 0, but it is the required-field check that
  rejects it: the answer is "Missing required fields", not "Message too short".
\<close>

theorem empty_message_not_too_short:
  "length (trim (to_string (message empty_message))) < 10 \<and>
   handler scenario_env (post empty_message) =
     (json_response 400
        [(''error'', JString (lit ''Missing required fields'')),
         (''details'', JString (lit ''name, email, and message are all required''))],
      []) \<and>
   fst (handler scenario_env (post empty_message)) \<noteq>
     json_response 400
       [(''error'', JString (lit ''Message too short'')),
        (''details'', JString (lit ''Message must be at least 10 characters long''))]"
  by (simp add: handler_def post_def empty_message_def scenario_A_def trim_def json_response_def)
     (simp add: lit_def)


text \<open>
  C4, amended. In a POST request whose body was read, whose \<open>name\<close> is non-empty and
  whose \<open>email\<close> passes the format check, every non-empty message whose trimmed length
  is below 10 is answered with 400 \<open>{error: "Message too short", details: "Message must
  be at least 10 characters long"}\<close> and no call, and every message whose trimmed
  length is at least 10 passes, whatever its content: the handler goes on to send the
  email.
\<close>

theorem message_length_check:
  assumes "method req = ''POST''" and "json req = Inr d"
    and "truthy (name d)" and "email d = Some e" and "regex_test emailRegex e"
    and "message d = Some m" and "m \<noteq> []"
  shows "(length (trim m) < 10 \<longrightarrow>
            handler env req =
              (json_response 400
                 [(''error'', JString (lit ''Message too short'')),
                  (''details'', JString (lit ''Message must be at least 10 characters long''))],
               [])) \<and>
         (10 \<le> length (trim m) \<longrightarrow>
            handler env req = send_email env d \<and>
            fst (handler env req) \<noteq>
              json_response 400
                [(''error'', JString (lit ''Message too short'')),
                 (''details'', JString (lit ''Message must be at least 10 characters long''))])"
proof -
  have "e \<noteq> []" using assms(5) by (rule regex_test_nonempty)
  then have h: "handler env req =
      (if length (trim m) < 10 then
         (json_response 400
            [(''error'', JString (lit ''Message too short'')),
             (''details'', JString (lit ''Message must be at least 10 characters long''))],
          [])
       else send_email env d)"
    using assms by (simp add: handler_def)
  have "status (fst (send_email env d)) \<noteq> 400"
    using status_send_email [of env d] by auto
  then have "fst (send_email env d) \<noteq>
      json_response 400
        [(''error'', JString (lit ''Message too short'')),
         (''details'', JString (lit ''Message must be at least 10 characters long''))]"
    by (auto simp: json_response_def)
  with h show ?thesis by simp
qed

theorem message_length_check_witness:
  "method (post scenario_A) = ''POST'' \<and> json (post scenario_A) = Inr scenario_A \<and>
   truthy (name scenario_A) \<and> email scenario_A = Some (lit ''ada@example.com'') \<and>
   regex_test emailRegex (lit ''ada@example.com'') \<and>
   message scenario_A = Some (lit ''Hello, this is a test message.'') \<and>
   10 \<le> length (trim (lit ''Hello, this is a test message.'')) \<and>
   handler scenario_env (post scenario_A) = send_email scenario_env scenario_A"
proof -
  have p: "method (post scenario_A) = ''POST''" "json (post scenario_A) = Inr scenario_A"
    by (simp_all add: post_def)
  have f: "truthy (name scenario_A)" "email scenario_A = Some (lit ''ada@example.com'')"
    "regex_test emailRegex (lit ''ada@example.com'')"
    "message scenario_A = Some (lit ''Hello, this is a test message.'')"
    "lit ''Hello, this is a test message.'' \<noteq> []"
    by (simp_all add: scenario_A_def ada_email) (simp_all add: lit_def)
  from message_length_check [OF p f, of scenario_env]
  have "handler scenario_env (post scenario_A) = send_email scenario_env scenario_A"
    by (simp add: ada_message)
  with p f show ?thesis by (simp add: ada_message)
qed

section \<open>Facts about the form\<close>

lemma not_an_email: "\<not> regex_test emailRegex (lit ''not-an-email'')"
  by (simp add: lit_def emailRegex_def Plus_def is_space_def white_space_def)

lemma validateForm_verdict:
  "fst (validateForm st) \<longleftrightarrow>
     (f_email (formData st) = [] \<or> regex_test emailRegex (f_email (formData st))) \<and>
     (f_message (formData st) = [] \<or> 10 \<le> length (trim (f_message (formData st))))"
  by (auto simp: validateForm_def Let_def)

lemma validateForm_state:
  "snd (validateForm st) = st\<lparr>validationErrors := validationErrors (snd (validateForm st))\<rparr>"
  "formData (snd (validateForm st)) = formData st"
  by (simp_all add: validateForm_def Let_def)

lemma handleSubmit_invalid:
  assumes "\<not> fst (validateForm st)"
  shows "handleSubmit fenv st =
           ((snd (validateForm st))\<lparr>submitStatus :=
               \<lparr>status_type = Some Error,
                status_message = lit ''Please fix the validation errors before submitting.''\<rparr>\<rparr>,
            [])"
proof (cases "validateForm st")
  case (Pair valid st1)
  with assms show ?thesis by (simp add: handleSubmit_def)
qed

lemma space_fails_regex:
  assumes "is_space c"
  shows "\<not> regex_test emailRegex (c # e)"
  unfolding regex_test_emailRegex using assms by (simp add: email_shape_def)

lemma map_single:
  assumes "length xs = 1" "\<forall>c\<in>set xs. f c = v"
  shows "map f xs = [v]"
  using assms by (cases xs) auto

section \<open>No call for an invalid submission\<close>

text \<open>
  C2. A submission that fails a validation check of the handler (a required field
  absent or empty, an email that fails the pattern, a trimmed message shorter than 10)
  leads to no call to the delivery provider, and a POST of it is answered with status
  400. When \<open>validateForm\<close> fails, \<open>handleSubmit\<close> issues no POST and sets the status to
  the error "Please fix the validation errors before submitting.".
\<close>

theorem invalid_never_sent:
  "(json req = Inr d \<longrightarrow> \<not> valid_submission d \<longrightarrow>
      snd (handler env req) = [] \<and>
      (method req = ''POST'' \<longrightarrow> status (fst (handler env req)) = 400)) \<and>
   (\<not> fst (validateForm st) \<longrightarrow>
      snd (handleSubmit fenv st) = [] \<and>
      submitStatus (fst (handleSubmit fenv st)) =
        \<lparr>status_type = Some Error,
         status_message = lit ''Please fix the validation errors before submitting.''\<rparr>)"
  using handler_invalid [of req d env] by (simp add: handleSubmit_invalid)

theorem invalid_never_sent_witness:
  "json (post scenario_C) = Inr scenario_C \<and> \<not> valid_submission scenario_C \<and>
   snd (handler scenario_env (post scenario_C)) = [] \<and>
   status (fst (handler scenario_env (post scenario_C))) = 400 \<and>
   \<not> fst (validateForm not_an_email_form) \<and>
   snd (handleSubmit scenario_form_env not_an_email_form) = [] \<and>
   submitStatus (fst (handleSubmit scenario_form_env not_an_email_form)) =
     \<lparr>status_type = Some Error,
      status_message = lit ''Please fix the validation errors before submitting.''\<rparr> \<and>
   email_error (validationErrors (fst (handleSubmit scenario_form_env not_an_email_form))) =
     Some (lit ''Please enter a valid email address'')"
proof -
  have a: "json (post scenario_C) = Inr scenario_C" "method (post scenario_C) = ''POST''"
    by (simp_all add: post_def)
  have b: "\<not> valid_submission scenario_C"
    by (simp add: valid_submission_def scenario_C_def)
  have c: "\<not> fst (validateForm not_an_email_form)"
    by (simp add: validateForm_verdict not_an_email_form_def not_an_email) (simp add: lit_def)
  have "email_error (validationErrors (snd (validateForm not_an_email_form))) =
      Some (lit ''Please enter a valid email address'')"
    by (simp add: validateForm_def not_an_email_form_def not_an_email) (simp add: lit_def)
  then have e: "email_error (validationErrors (fst (handleSubmit scenario_form_env not_an_email_form))) =
      Some (lit ''Please enter a valid email address'')"
    using c by (simp add: handleSubmit_invalid)
  from invalid_never_sent [of "post scenario_C" scenario_C scenario_env not_an_email_form
      scenario_form_env] a b c e
  show ?thesis by simp
qed

section \<open>The subject line\<close>

text \<open>
  C7. For a valid submission, every email that the handler dispatches has the subject
  line \<open>Contact Form: {subject}\<close> when the subject is present (given and not the empty
  string, which is what the form sends for a blank subject field), and \<open>New Contact Form
  Submission from {name}\<close> otherwise. The email is dispatched when the API key is
  configured and the subject has no unpaired surrogate.
\<close>

theorem subject_line:
  assumes "method req = ''POST''" and "json req = Inr d" and "valid_submission d"
    and "name d = Some n"
  shows "(\<forall>c\<in>set (snd (handler env req)).
            mail_subject c =
              (case subject d of
                 None \<Rightarrow> lit ''New Contact Form Submission from '' @ n
               | Some s \<Rightarrow>
                   if s = [] then lit ''New Contact Form Submission from '' @ n
                   else lit ''Contact Form: '' @ s)) \<and>
         (truthy (RESEND_API_KEY env) \<and> uri_encodable (or_else (subject d) (lit ''Your inquiry''))
            \<longrightarrow> length (snd (handler env req)) = 1)"
proof -
  have h: "handler env req = send_email env d"
    using assms by (simp add: handler_valid)
  have "emailSubject d =
      (case subject d of
         None \<Rightarrow> lit ''New Contact Form Submission from '' @ n
       | Some s \<Rightarrow>
           if s = [] then lit ''New Contact Form Submission from '' @ n
           else lit ''Contact Form: '' @ s)"
    using assms(4) by (simp add: emailSubject_def split: option.splits)
  then show ?thesis
    using calls_send_email [of env d] send_email_dispatches [of env d] h by auto
qed

theorem subject_line_witness:
  "method (post scenario_A) = ''POST'' \<and> json (post scenario_A) = Inr scenario_A \<and>
   valid_submission scenario_A \<and> name scenario_A = Some (lit ''Ada'') \<and>
   map mail_subject (snd (handler scenario_env (post scenario_A))) =
     [lit ''New Contact Form Submission from Ada''] \<and>
   valid_submission with_subject \<and> subject with_subject = Some (lit ''Pricing'') \<and>
   map mail_subject (snd (handler scenario_env (post with_subject))) =
     [lit ''Contact Form: Pricing'']"
proof -
  have p: "method (post scenario_A) = ''POST''" "json (post scenario_A) = Inr scenario_A"
    and q: "method (post with_subject) = ''POST''" "json (post with_subject) = Inr with_subject"
    by (simp_all add: post_def)
  have n: "name scenario_A = Some (lit ''Ada'')" and s: "subject scenario_A = None"
    and n': "name with_subject = Some (lit ''Ada'')"
    and s': "subject with_subject = Some (lit ''Pricing'')"
    by (simp_all add: scenario_A_def with_subject_def)
  have v: "valid_submission with_subject"
    using scenario_A_valid by (simp add: valid_submission_def with_subject_def)
  have k: "truthy (RESEND_API_KEY scenario_env)"
    by (simp add: scenario_env_def lit_def)
  have u: "uri_encodable (or_else (subject scenario_A) (lit ''Your inquiry''))"
    "uri_encodable (or_else (subject with_subject) (lit ''Your inquiry''))"
    by (simp_all add: s s' or_else_def lit_def is_low_surrogate_def is_high_surrogate_def)
  have l: "lit ''New Contact Form Submission from '' @ lit ''Ada'' =
      lit ''New Contact Form Submission from Ada''"
    "lit ''Contact Form: '' @ lit ''Pricing'' = lit ''Contact Form: Pricing''"
    "lit ''Pricing'' \<noteq> []"
    by (simp_all add: lit_def)
  from subject_line [OF p scenario_A_valid n, of scenario_env] k u
  have a: "map mail_subject (snd (handler scenario_env (post scenario_A))) =
      [lit ''New Contact Form Submission from '' @ lit ''Ada'']"
    by (intro map_single) (simp_all add: s)
  from subject_line [OF q v n', of scenario_env] k u l
  have b: "map mail_subject (snd (handler scenario_env (post with_subject))) =
      [lit ''Contact Form: '' @ lit ''Pricing'']"
    by (intro map_single) (simp_all add: s')
  from a b p n v s' scenario_A_valid l show ?thesis by simp
qed

section \<open>Validation run twice\<close>

text \<open>
  C8. \<open>validateForm\<close> is not free of side effects: it stores the error object it has
  computed. On the form of the form-level scenario the stored errors are empty before
  the call and hold the email error after it.
\<close>

theorem validateForm_changes_state:
  "validationErrors not_an_email_form = \<lparr>email_error = None, message_error = None\<rparr> \<and>
   validationErrors (snd (validateForm not_an_email_form)) =
     \<lparr>email_error = Some (lit ''Please enter a valid email address''), message_error = None\<rparr> \<and>
   snd (validateForm not_an_email_form) \<noteq> not_an_email_form"
proof -
  have a: "validationErrors not_an_email_form = \<lparr>email_error = None, message_error = None\<rparr>"
    by (simp add: not_an_email_form_def initial_form_def)
  have b: "validationErrors (snd (validateForm not_an_email_form)) =
     \<lparr>email_error = Some (lit ''Please enter a valid email address''), message_error = None\<rparr>"
    by (simp add: validateForm_def not_an_email_form_def not_an_email ada_message)
       (simp add: lit_def)
  from a b have "validationErrors (snd (validateForm not_an_email_form)) \<noteq>
      validationErrors not_an_email_form" by simp
  then have "snd (validateForm not_an_email_form) \<noteq> not_an_email_form" by auto
  with a b show ?thesis by simp
qed


text \<open>
  C8, amended. Validation is idempotent: \<open>validateForm\<close> run on the state that
  \<open>validateForm\<close> left gives the same verdict and the same state, verdict and error
  object depend on the field values alone, and the only thing \<open>validateForm\<close> changes is
  the stored error object. The validation of the handler has no effect at all: a
  submission that fails it gets the same response in every environment and no call is
  made, and one that passes it is handed on unchanged.
\<close>

theorem validation_idempotent:
  "validateForm (snd (validateForm st)) = validateForm st \<and>
   snd (validateForm st) = st\<lparr>validationErrors := validationErrors (snd (validateForm st))\<rparr> \<and>
   (formData st' = formData st \<longrightarrow>
      fst (validateForm st') = fst (validateForm st) \<and>
      validationErrors (snd (validateForm st')) = validationErrors (snd (validateForm st))) \<and>
   (json req = Inr d \<longrightarrow> \<not> valid_submission d \<longrightarrow>
      handler env' req = handler env req \<and> snd (handler env req) = []) \<and>
   (method req = ''POST'' \<longrightarrow> json req = Inr d \<longrightarrow> valid_submission d \<longrightarrow>
      handler env req = send_email env d)"
proof -
  have "validateForm (snd (validateForm st)) = validateForm st"
    by (simp add: validateForm_def Let_def)
  moreover have "formData st' = formData st \<Longrightarrow>
      fst (validateForm st') = fst (validateForm st) \<and>
      validationErrors (snd (validateForm st')) = validationErrors (snd (validateForm st))"
    by (simp add: validateForm_def Let_def)
  moreover have "json req = Inr d \<Longrightarrow> \<not> valid_submission d \<Longrightarrow>
      handler env' req = handler env req"
    by (auto simp: handler_def valid_submission_def)
  ultimately show ?thesis
    using validateForm_state(1) [of st] handler_invalid(1) [of req d env]
      handler_valid [of req d env]
    by blast
qed

theorem validation_idempotent_witness:
  "fst (validateForm (snd (validateForm not_an_email_form))) = fst (validateForm not_an_email_form) \<and>
   \<not> fst (validateForm not_an_email_form) \<and>
   json (post scenario_C) = Inr scenario_C \<and> \<not> valid_submission scenario_C \<and>
   snd (handler scenario_env (post scenario_C)) = [] \<and>
   method (post scenario_A) = ''POST'' \<and> json (post scenario_A) = Inr scenario_A \<and>
   valid_submission scenario_A \<and>
   handler scenario_env (post scenario_A) = send_email scenario_env scenario_A"
proof -
  have a: "json (post scenario_C) = Inr scenario_C"
    and b: "method (post scenario_A) = ''POST''" "json (post scenario_A) = Inr scenario_A"
    by (simp_all add: post_def)
  have c: "\<not> valid_submission scenario_C"
    by (simp add: valid_submission_def scenario_C_def)
  have f: "\<not> fst (validateForm not_an_email_form)"
    by (simp add: validateForm_verdict not_an_email_form_def not_an_email) (simp add: lit_def)
  from validation_idempotent [of not_an_email_form not_an_email_form "post scenario_C"
      scenario_C scenario_env scenario_env]
    validation_idempotent [of not_an_email_form not_an_email_form "post scenario_A"
      scenario_A scenario_env scenario_env]
    a b c f scenario_A_valid
  show ?thesis by simp
qed

section \<open>The empty form\<close>

text \<open>
  C9. \<open>validateForm\<close> checks a field only when it is not empty: its verdict is that the
  email is empty or matches the pattern, and the message is empty or has trimmed length
  at least 10. With email and message both empty it stores an empty error object and
  returns true, so the completely empty form passes.
\<close>

theorem empty_form_passes:
  "(f_email (formData st) = [] \<and> f_message (formData st) = [] \<longrightarrow>
      validateForm st =
        (True, st\<lparr>validationErrors := \<lparr>email_error = None, message_error = None\<rparr>\<rparr>)) \<and>
   (fst (validateForm st) \<longleftrightarrow>
      (f_email (formData st) = [] \<or> regex_test emailRegex (f_email (formData st))) \<and>
      (f_message (formData st) = [] \<or> 10 \<le> length (trim (f_message (formData st)))))"
  using validateForm_verdict [of st] by (simp add: validateForm_def)

theorem empty_form_passes_witness:
  "f_email (formData initial_form) = [] \<and> f_message (formData initial_form) = [] \<and>
   validateForm initial_form = (True, initial_form) \<and>
   length (snd (handleSubmit scenario_form_env initial_form)) = 1"
proof -
  have a: "f_email (formData initial_form) = []" "f_message (formData initial_form) = []"
    by (simp_all add: initial_form_def)
  have b: "initial_form\<lparr>validationErrors := \<lparr>email_error = None, message_error = None\<rparr>\<rparr> =
      initial_form"
    by (simp add: initial_form_def)
  from empty_form_passes [of initial_form] a b
  have v: "validateForm initial_form = (True, initial_form)" by simp
  then have "length (snd (handleSubmit scenario_form_env initial_form)) = 1"
    by (simp add: handleSubmit_def Let_def)
  with a v show ?thesis by simp
qed

section \<open>Required fields are not trimmed\<close>

text \<open>
  C10. In a POST request whose body was read, the handler answers "Missing required
  fields" exactly when \<open>name\<close>, \<open>email\<close> or \<open>message\<close> is absent or the empty string.
  Nothing is trimmed there: any non-empty name, such as a single space, passes, and with
  an email that matches and a message of trimmed length at least 10 the submission is
  accepted. The email is not trimmed either (one that starts with white space fails the
  format check), while the message is: a non-empty message of white space only is
  answered with "Message too short".
\<close>

theorem required_check_is_truthiness:
  assumes "method req = ''POST''" and "json req = Inr d"
  shows "(fst (handler env req) =
            json_response 400
              [(''error'', JString (lit ''Missing required fields'')),
               (''details'', JString (lit ''name, email, and message are all required''))]
          \<longleftrightarrow> name d \<in> {None, Some []} \<or> email d \<in> {None, Some []} \<or>
              message d \<in> {None, Some []}) \<and>
         (\<forall>n e m. name d = Some n \<and> n \<noteq> [] \<and> email d = Some e \<and> regex_test emailRegex e \<and>
             message d = Some m \<and> 10 \<le> length (trim m) \<longrightarrow>
             handler env req = send_email env d) \<and>
         (\<forall>c e. truthy (name d) \<and> truthy (message d) \<and> email d = Some (c # e) \<and> is_space c \<longrightarrow>
             handler env req =
               (json_response 400 [(''error'', JString (lit ''Invalid email format''))], [])) \<and>
         (\<forall>e m. truthy (name d) \<and> email d = Some e \<and> regex_test emailRegex e \<and>
             message d = Some m \<and> m \<noteq> [] \<and> (\<forall>c\<in>set m. is_space c) \<longrightarrow>
             handler env req =
               (json_response 400
                  [(''error'', JString (lit ''Message too short'')),
                   (''details'', JString (lit ''Message must be at least 10 characters long''))],
                []))"
proof (intro conjI allI impI)
  let ?missing = "json_response 400
      [(''error'', JString (lit ''Missing required fields'')),
       (''details'', JString (lit ''name, email, and message are all required''))]"
  have l: "lit ''Message too short'' \<noteq> lit ''Missing required fields''"
    by (simp add: lit_def)
  have s: "fst (send_email env d) \<noteq> ?missing"
    using status_send_email [of env d] by (auto simp: json_response_def)
  show "fst (handler env req) = ?missing \<longleftrightarrow>
      name d \<in> {None, Some []} \<or> email d \<in> {None, Some []} \<or> message d \<in> {None, Some []}"
    using assms l s by (auto simp: handler_def falsy_iff json_response_def)
next
  fix n e m
  assume "name d = Some n \<and> n \<noteq> [] \<and> email d = Some e \<and> regex_test emailRegex e \<and>
      message d = Some m \<and> 10 \<le> length (trim m)"
  then have "valid_submission d"
    using regex_test_nonempty [of e] by (auto simp: valid_submission_def trim_def)
  with assms show "handler env req = send_email env d" by (rule handler_valid)
next
  fix c e
  assume "truthy (name d) \<and> truthy (message d) \<and> email d = Some (c # e) \<and> is_space c"
  then show "handler env req =
      (json_response 400 [(''error'', JString (lit ''Invalid email format''))], [])"
    using assms space_fails_regex [of c e] by (simp add: handler_def)
next
  fix e m
  assume a: "truthy (name d) \<and> email d = Some e \<and> regex_test emailRegex e \<and>
      message d = Some m \<and> m \<noteq> [] \<and> (\<forall>c\<in>set m. is_space c)"
  then have "trim m = []" by (simp add: trim_blank)
  with a show "handler env req =
      (json_response 400
         [(''error'', JString (lit ''Message too short'')),
          (''details'', JString (lit ''Message must be at least 10 characters long''))],
       [])"
    using assms regex_test_nonempty [of e] by (simp add: handler_def)
qed

theorem required_check_is_truthiness_witness:
  "method (post blank_name) = ''POST'' \<and> json (post blank_name) = Inr blank_name \<and>
   name blank_name = Some (lit '' '') \<and> trim (lit '' '') = [] \<and>
   handler scenario_env (post blank_name) = send_email scenario_env blank_name \<and>
   status (fst (handler scenario_env (post blank_name))) = 200 \<and>
   map mail_subject (snd (handler scenario_env (post blank_name))) =
     [lit ''New Contact Form Submission from  '']"
proof -
  have p: "method (post blank_name) = ''POST''" "json (post blank_name) = Inr blank_name"
    by (simp_all add: post_def)
  have f: "name blank_name = Some (lit '' '')" "lit '' '' \<noteq> []"
    "email blank_name = Some (lit ''ada@example.com'')"
    "message blank_name = Some (lit ''Hello, this is a test message.'')"
    by (simp_all add: blank_name_def scenario_A_def lit_def)
  have t: "trim (lit '' '') = []"
    by (simp add: trim_def lit_def is_space_def white_space_def)
  from required_check_is_truthiness [OF p, of scenario_env] f ada_email ada_message
  have h: "handler scenario_env (post blank_name) = send_email scenario_env blank_name"
    by simp
  have s: "status (fst (send_email scenario_env blank_name)) = 200 \<and>
      map mail_subject (snd (send_email scenario_env blank_name)) =
        [lit ''New Contact Form Submission from  '']"
    by (simp add: send_email_def scenario_env_def blank_name_def scenario_A_def or_else_def
          emailSubject_def json_response_def Let_def)
       (simp add: lit_def is_low_surrogate_def is_high_surrogate_def)
  from p f t h s show ?thesis by simp
qed

end
